theory Spec2Isabelle
  imports Main "HOL-Library.Word" "HOL-Library.Sublist"
begin

section \<open>The per-stream runtime of server/stream.go\<close>

text \<open>
  A shallow embedding of the ingest path (\<^verbatim>\<open>processJetStreamMsg\<close>), the deduplication
  window (\<^verbatim>\<open>checkMsgId\<close>, \<^verbatim>\<open>storeMsgId\<close>, \<^verbatim>\<open>purgeMsgIds\<close>, \<^verbatim>\<open>purge\<close>,
  \<^verbatim>\<open>rebuildDedupe\<close>), the source delivery handler (\<^verbatim>\<open>processInboundSourceMsg\<close>) and the
  block size tuning (\<^verbatim>\<open>autoTuneFileStorageBlockSize\<close>) of \<^verbatim>\<open>src/server/stream.go\<close>.

  Go's \<^verbatim>\<open>uint64\<close>, \<^verbatim>\<open>int64\<close> and \<^verbatim>\<open>int32\<close> are words, so \<^verbatim>\<open>+\<close>, \<^verbatim>\<open>-\<close> and \<^verbatim>\<open>++\<close> wrap as
  they do in Go; a signed comparison reads both sides with \<open>sint\<close> (\<open>\<le>s\<close>, \<open><s\<close>).
  \<^verbatim>\<open>[]byte\<close> and \<^verbatim>\<open>string\<close> are byte lists. A \<^verbatim>\<open>time.Duration\<close> and a
  \<^verbatim>\<open>UnixNano\<close> time stamp are \<^verbatim>\<open>int64\<close> nanoseconds. The stream mutex is not modelled:
  every function below is one critical section or a sequence of them with nothing
  running in between.
\<close>

type_synonym uint64 = "64 word"
type_synonym int64 = "64 word"
type_synonym int32 = "32 word"
type_synonym bytes = string

subsection \<open>What the file uses and does not define\<close>

text \<open>
  \<^verbatim>\<open>stream.go\<close> calls helpers and reads constants that other files of the repository
  define. They are parameters of the model, collected in one record and passed to every
  function that needs them:
  \<^item> \<open>getHeader key hdr\<close>, \<open>removeHeaderIfPresent hdr key\<close>, \<open>genHeader hdr key value\<close>:
    the header codec;
  \<^item> \<open>parseInt64\<close>: the decimal parser behind \<^verbatim>\<open>getExpectedLastSeq\<close>;
  \<^item> \<open>subjectIsSubsetMatch\<close>, \<open>subjectIsLiteral\<close>: subject matching;
  \<^item> \<open>fileStoreMsgSizeEstimate\<close>, \<open>FileStoreMinBlkSize\<close>, \<open>FileStoreMaxBlkSize\<close>,
    \<open>MAX_PAYLOAD_SIZE\<close>: the file store's sizes;
  \<^item> \<open>ClientInfoHdr\<close>: the name of the header that carries client information;
  \<^item> \<open>replyInfo reply\<close>: the stream sequence, delivery sequence, delivery count, time
    stamp and pending count that the reply subject of a delivery encodes;
  \<^item> \<open>growslice oldcap needed\<close>: the capacity the Go runtime gives a slice that
    \<^verbatim>\<open>append\<close> has to reallocate for \<open>needed\<close> elements.
\<close>

record ext =
  getHeader :: "string \<Rightarrow> bytes \<Rightarrow> bytes"
  removeHeaderIfPresent :: "bytes \<Rightarrow> string \<Rightarrow> bytes"
  genHeader :: "bytes \<Rightarrow> string \<Rightarrow> string \<Rightarrow> bytes"
  parseInt64 :: "bytes \<Rightarrow> int64"
  subjectIsSubsetMatch :: "string \<Rightarrow> string \<Rightarrow> bool"
  subjectIsLiteral :: "string \<Rightarrow> bool"
  fileStoreMsgSizeEstimate :: "int \<Rightarrow> int \<Rightarrow> uint64"
  FileStoreMinBlkSize :: uint64
  FileStoreMaxBlkSize :: uint64
  MAX_PAYLOAD_SIZE :: int32
  ClientInfoHdr :: string
  replyInfo :: "string \<Rightarrow> uint64 \<times> uint64 \<times> uint64 \<times> int64 \<times> uint64"
  growslice :: "nat \<Rightarrow> nat \<Rightarrow> nat"

text \<open>The header names of \<^verbatim>\<open>stream.go\<close>.\<close>

definition JSMsgId :: string where
  "JSMsgId = ''Nats-Msg-Id''"

definition JSExpectedStream :: string where
  "JSExpectedStream = ''Nats-Expected-Stream''"

definition JSExpectedLastSeq :: string where
  "JSExpectedLastSeq = ''Nats-Expected-Last-Sequence''"

definition JSExpectedLastMsgId :: string where
  "JSExpectedLastMsgId = ''Nats-Expected-Last-Msg-Id''"

definition JSStreamSource :: string where
  "JSStreamSource = ''Nats-Stream-Source''"

text \<open>
  \<^verbatim>\<open>strconv.FormatUint(n, 10)\<close> and the verb \<^verbatim>\<open>%d\<close> of \<^verbatim>\<open>fmt.Sprintf\<close>: the decimal
  digits of \<open>n\<close>, most significant first.
\<close>

function FormatUint :: "nat \<Rightarrow> string" where
  "FormatUint n =
     (if n < 10 then [''0123456789'' ! n]
      else FormatUint (n div 10) @ [''0123456789'' ! (n mod 10)])"
  by pat_completeness auto
termination
  by (relation "measure id") auto

declare FormatUint.simps [simp del]

subsection \<open>Data\<close>

datatype RetentionPolicy = LimitsPolicy | InterestPolicy | WorkQueuePolicy

datatype StorageType = FileStorage | MemoryStorage

record StreamSource =
  SourceName :: string
  OptStartSeq :: uint64

text \<open>The fields of \<^verbatim>\<open>StreamConfig\<close> that the modelled functions read.\<close>

record StreamConfig =
  Name :: string
  Subjects :: "string list"
  Retention :: RetentionPolicy
  MaxMsgs :: int64
  MaxBytes :: int64
  MaxMsgSize :: int32
  Storage :: StorageType
  NoAck :: bool
  Duplicates :: int64
  Mirror :: "StreamSource option"

text \<open>
  The dedupe entry \<^verbatim>\<open>ddentry{id, seq, ts}\<close>; the fields carry a prefix because \<open>id\<close> is
  a constant of HOL.
\<close>

record ddentry =
  dde_id :: string
  dde_seq :: uint64
  dde_ts :: int64

record ApiError =
  Code :: int
  Description :: string

record PubAck =
  Stream :: string
  Sequence :: uint64
  Duplicate :: bool

record JSPubAckResponse =
  Error :: "ApiError option"
  PubAck :: "PubAck option"

text \<open>
  The payload of an internal message is either the \<^verbatim>\<open>json.Marshal\<close> of a response
  (kept as the response itself) or raw bytes.
\<close>

datatype payload = Marshal JSPubAckResponse | Raw bytes

text \<open>
  \<^verbatim>\<open>jsPubMsg{subj, dsubj, reply, hdr, msg, o, seq}\<close>; the consumer reference \<^verbatim>\<open>o\<close> is
  \<^verbatim>\<open>nil\<close> in every message the modelled functions send and is left out.
\<close>

record jsPubMsg =
  pm_subj :: string
  pm_dsubj :: string
  pm_reply :: string
  pm_hdr :: bytes
  pm_msg :: payload
  pm_seq :: uint64

text \<open>What the ingest path reads of a consumer: its filter subject and whether it leads.\<close>

record consumer =
  consumerName :: string
  FilterSubject :: string
  consumerIsLeader :: bool

subsection \<open>The store\<close>

text \<open>
  Modelled from the spec: the \<^verbatim>\<open>StreamStore\<close> behind \<^verbatim>\<open>mset.store\<close> is an interface whose
  implementations (the file store and the memory store) are not in \<^verbatim>\<open>stream.go\<close>. The
  model keeps what the store contract of the specification names: the first and last
  sequence of \<^verbatim>\<open>state()\<close> and the stored messages in the order they were written.
\<close>

record StoredMsg =
  smSubject :: string
  smHeader :: bytes
  smData :: bytes
  smTime :: int64

record StreamStore =
  FirstSeq :: uint64
  LastSeq :: uint64
  msgs :: "(uint64 \<times> StoredMsg) list"

text \<open>
  Modelled from the spec: \<^verbatim>\<open>store_msg(subject, hdr, msg) -> (seq, ts)\<close> "assigns next
  sequence, persists, returns sequence and timestamp". The time stamp is the clock's.
\<close>

definition StoreMsg :: "int64 \<Rightarrow> string \<Rightarrow> bytes \<Rightarrow> bytes \<Rightarrow> StreamStore \<Rightarrow> uint64 \<times> int64 \<times> StreamStore" where
  "StoreMsg now subject hdr msg st =
     (let seq = LastSeq st + 1
      in (seq, now,
          st\<lparr>LastSeq := seq,
             FirstSeq := (if FirstSeq st = 0 then seq else FirstSeq st),
             msgs := msgs st @ [(seq, \<lparr>smSubject = subject, smHeader = hdr, smData = msg, smTime = now\<rparr>)]\<rparr>))"

text \<open>
  Modelled from the spec: \<^verbatim>\<open>store_raw_msg(subject, hdr, msg, seq, ts)\<close> "persists at a
  caller-assigned sequence/timestamp".
\<close>

definition StoreRawMsg :: "string \<Rightarrow> bytes \<Rightarrow> bytes \<Rightarrow> uint64 \<Rightarrow> int64 \<Rightarrow> StreamStore \<Rightarrow> StreamStore" where
  "StoreRawMsg subject hdr msg seq ts st =
     st\<lparr>LastSeq := seq,
        FirstSeq := (if FirstSeq st = 0 then seq else FirstSeq st),
        msgs := msgs st @ [(seq, \<lparr>smSubject = subject, smHeader = hdr, smData = msg, smTime = ts\<rparr>)]\<rparr>"

text \<open>
  Modelled from the spec: \<^verbatim>\<open>skip_msg() -> seq\<close> "advances sequence without storing a
  body".
\<close>

definition SkipMsg :: "StreamStore \<Rightarrow> uint64 \<times> StreamStore" where
  "SkipMsg st = (LastSeq st + 1, st\<lparr>LastSeq := LastSeq st + 1\<rparr>)"

text \<open>
  Modelled from the spec: \<^verbatim>\<open>remove_msg(seq) -> bool\<close>; the message leaves the store, the
  sequence counter stays.
\<close>

definition RemoveMsg :: "uint64 \<Rightarrow> StreamStore \<Rightarrow> bool \<times> StreamStore" where
  "RemoveMsg seq st =
     (list_ex (\<lambda>m. fst m = seq) (msgs st), st\<lparr>msgs := filter (\<lambda>m. fst m \<noteq> seq) (msgs st)\<rparr>)"

text \<open>
  Modelled from the spec: \<^verbatim>\<open>compact(up_to_seq)\<close>; the messages below \<open>seq\<close> leave the
  store and \<open>seq\<close> becomes its first sequence. A store compacted beyond its last sequence
  continues at \<open>seq\<close>: the ingest pipeline compacts the empty store of a mirror to
  \<^verbatim>\<open>proposed_lseq + 1\<close> so that the next message is stored there (section 4.4, step 1,
  and scenario S5).
\<close>

definition Compact :: "uint64 \<Rightarrow> StreamStore \<Rightarrow> StreamStore" where
  "Compact seq st =
     (if LastSeq st < seq
      then st\<lparr>FirstSeq := seq, LastSeq := seq - 1, msgs := []\<rparr>
      else st\<lparr>FirstSeq := seq, msgs := filter (\<lambda>m. seq \<le> fst m) (msgs st)\<rparr>)"


text \<open>
  Modelled from the spec: \<^verbatim>\<open>load_msg(seq) -> (subject, hdr, msg, ts)\<close>; \<open>None\<close> is the
  error of a sequence that holds no message.
\<close>

definition LoadMsg :: "uint64 \<Rightarrow> StreamStore \<Rightarrow> StoredMsg option" where
  "LoadMsg seq st = map_of (msgs st) seq"


subsection \<open>The stream\<close>

text \<open>
  The fields of \<^verbatim>\<open>stream\<close> that the modelled functions read or write.
  \<^item> \<open>ddmap\<close>: a \<^verbatim>\<open>nil\<close> map and an empty map are the same map here; Go reads, deletes
    from and takes the length of both alike, and \<^verbatim>\<open>storeMsgId\<close> allocates before it
    writes.
  \<^item> \<open>ddarr\<close> with \<open>ddcap\<close>, the capacity \<^verbatim>\<open>cap(mset.ddarr)\<close> of the slice.
  \<^item> \<open>ddindex\<close>: an \<^verbatim>\<open>int\<close> that is only ever set to 0 or increased, a \<open>nat\<close> here.
  \<^item> \<open>ddtmr\<close>: \<open>None\<close> is the \<^verbatim>\<open>nil\<close> timer, \<open>Some d\<close> a timer armed to fire \<open>d\<close>
    after it was set.
  \<^item> \<open>client\<close>: whether \<^verbatim>\<open>mset.client\<close> is not \<^verbatim>\<open>nil\<close> (the stream is open).
  \<^item> \<open>sendq\<close>: \<open>None\<close> is the \<^verbatim>\<open>nil\<close> channel, \<open>Some q\<close> the messages sent so far.
  \<^item> \<open>node\<close>: \<open>None\<close> is the \<^verbatim>\<open>nil\<close> raft node, \<open>Some b\<close> a node whose \<^verbatim>\<open>Leader()\<close>
    answers \<open>b\<close>.
\<close>

record stream =
  store :: StreamStore
  lseq :: uint64
  lmsgId :: string
  consumers :: "consumer list"
  numFilter :: int
  cfg :: StreamConfig
  ddmap :: "string \<Rightarrow> ddentry option"
  ddarr :: "ddentry list"
  ddcap :: nat
  ddindex :: nat
  ddtmr :: "int64 option"
  client :: bool
  sendq :: "jsPubMsg list option"
  pubAck :: bytes
  node :: "bool option"
  clfs :: uint64

subsection \<open>The deduplication window\<close>

text \<open>\<^verbatim>\<open>checkMsgId\<close> (lines 1569-1574).\<close>

definition checkMsgId :: "string \<Rightarrow> stream \<Rightarrow> ddentry option" where
  "checkMsgId msgId s = (if msgId = [] then None else ddmap s msgId)"

text \<open>
  \<^verbatim>\<open>append(mset.ddarr, dde)\<close> keeps the capacity when the element fits and asks the
  runtime for a new one otherwise.
\<close>

definition append_cap :: "ext \<Rightarrow> nat \<Rightarrow> nat \<Rightarrow> nat" where
  "append_cap x len c = (if len + 1 \<le> c then c else growslice x c (len + 1))"

text \<open>\<^verbatim>\<open>storeMsgId\<close> (lines 1614-1625).\<close>

definition storeMsgId :: "ext \<Rightarrow> ddentry \<Rightarrow> stream \<Rightarrow> stream" where
  "storeMsgId x dde s =
     s\<lparr>ddtmr := (case ddtmr s of None \<Rightarrow> Some (Duplicates (cfg s)) | Some d \<Rightarrow> Some d),
       ddmap := (ddmap s)(dde_id dde \<mapsto> dde),
       ddarr := ddarr s @ [dde],
       ddcap := append_cap x (length (ddarr s)) (ddcap s)\<rparr>"

text \<open>
  The loop of \<^verbatim>\<open>purgeMsgIds\<close> (lines 1586-1599) over \<^verbatim>\<open>mset.ddarr[mset.ddindex:]\<close>: \<open>i\<close> is
  the loop index, the list what is left of the range, and the pair the stream with
  \<^verbatim>\<open>tmrNext\<close>. An entry past the window is deleted from the map by its id; the first
  entry inside the window moves \<open>ddindex\<close>, may reallocate \<open>ddarr\<close>, sets \<^verbatim>\<open>tmrNext\<close> and
  breaks.
\<close>

fun purgeLoop :: "ext \<Rightarrow> int64 \<Rightarrow> int64 \<Rightarrow> nat \<Rightarrow> ddentry list \<Rightarrow> stream \<times> int64 \<Rightarrow> stream \<times> int64" where
  "purgeLoop x now window i [] (s, tmrNext) = (s, tmrNext)"
| "purgeLoop x now window i (dde # rest) (s, tmrNext) =
     (if window \<le>s now - dde_ts dde
      then purgeLoop x now window (i + 1) rest (s\<lparr>ddmap := (ddmap s)(dde_id dde := None)\<rparr>, tmrNext)
      else (let s1 = s\<lparr>ddindex := ddindex s + i\<rparr>;
                s2 = (if 3 * (length (ddarr s1) - ddindex s1) < ddcap s1
                      then s1\<lparr>ddarr := drop (ddindex s1) (ddarr s1),
                              ddcap := growslice x 0 (length (ddarr s1) - ddindex s1),
                              ddindex := 0\<rparr>
                      else s1)
            in (s2, window - (now - dde_ts dde))))"




text \<open>\<^verbatim>\<open>getMsgId\<close> (lines 1628-1630).\<close>

definition getMsgId :: "ext \<Rightarrow> bytes \<Rightarrow> string" where
  "getMsgId x hdr = getHeader x JSMsgId hdr"



subsection \<open>The ingest path\<close>

text \<open>
  What one call of \<^verbatim>\<open>processJetStreamMsg\<close> takes from its surroundings: the reading of
  \<^verbatim>\<open>time.Now().UnixNano()\<close>, the error the store answers the append with (by its text,
  \<open>None\<close> when the append succeeds), and the answer of \<^verbatim>\<open>jsa.limitsExceeded(stype)\<close>.
\<close>

record env =
  now :: int64
  storeErr :: "string option"
  limitsExceeded :: bool

text \<open>
  The errors \<^verbatim>\<open>processJetStreamMsg\<close> returns: \<^verbatim>\<open>errLastSeqMismatch\<close>,
  \<^verbatim>\<open>errors.New("msgid is duplicate")\<close>, \<^verbatim>\<open>errors.New("expected stream does not match")\<close>,
  \<^verbatim>\<open>fmt.Errorf("last sequence mismatch: %d vs %d", seq, mlseq)\<close>,
  \<^verbatim>\<open>fmt.Errorf("last msgid mismatch: %q vs %q", lmsgId, last)\<close>, \<^verbatim>\<open>ErrMaxPayload\<close>, and the
  store's error.
\<close>

datatype error =
    errLastSeqMismatch
  | errMsgIdDuplicate
  | errExpectedStream
  | errLastSeq uint64 uint64
  | errLastMsgId string string
  | ErrMaxPayload
  | StoreError string

text \<open>The \<^verbatim>\<open>return\<close> statement a call ends at.\<close>

datatype exit =
    AtClosed
  | AtSeqMismatch
  | AtDuplicate
  | AtExpectedStream
  | AtExpectedLastSeq
  | AtExpectedLastMsgId
  | AtMaxPayload
  | AtSkipped
  | AtStoreFailed
  | AtLimitsExceeded
  | AtStored

text \<open>
  The outcome of a call: the stream afterwards (its \<open>sendq\<close> holds the replies), the
  returned error (\<open>None\<close> is \<^verbatim>\<open>nil\<close>), the \<^verbatim>\<open>return\<close> statement reached, the last value
  of the local variable \<^verbatim>\<open>seq\<close>, and the names of the consumers the message was handed
  to (\<^verbatim>\<open>incStreamPending\<close>, \<^verbatim>\<open>deliverCurrentMsg\<close>). Calls to the logger are not modelled.
\<close>

record outcome =
  r_stream :: stream
  r_err :: "error option"
  r_exit :: exit
  r_seq :: uint64
  r_fanout :: "string list"

text \<open>\<^verbatim>\<open>isLeader\<close> (lines 391-396).\<close>

definition isLeader :: "stream \<Rightarrow> bool" where
  "isLeader s = (case node s of None \<Rightarrow> True | Some b \<Rightarrow> b)"


definition setLastSeq :: "uint64 \<Rightarrow> stream \<Rightarrow> stream" where
  "setLastSeq n s = s\<lparr>lseq := n\<rparr>"

text \<open>
  \<^verbatim>\<open>sendq <- &jsPubMsg{reply, _EMPTY_, _EMPTY_, nil, b, nil, 0}\<close>. A send on the \<^verbatim>\<open>nil\<close>
  channel blocks for ever: \<open>None\<close>. (A full queue only delays the sender.)
\<close>

definition send :: "string \<Rightarrow> payload \<Rightarrow> stream \<Rightarrow> stream option" where
  "send reply b s =
     (case sendq s of
        None \<Rightarrow> None
      | Some q \<Rightarrow>
          Some (s\<lparr>sendq := Some (q @ [\<lparr>pm_subj = reply, pm_dsubj = [], pm_reply = [],
                                         pm_hdr = [], pm_msg = b, pm_seq = 0\<rparr>])\<rparr>))"

text \<open>
  \<^verbatim>\<open>resp.PubAck = &PubAck{Stream: name}\<close>, \<^verbatim>\<open>resp.Error = &ApiError{Code: ..., Description: ...}\<close>
  and \<^verbatim>\<open>json.Marshal(resp)\<close>.
\<close>

definition errResponse :: "string \<Rightarrow> int \<Rightarrow> string \<Rightarrow> payload" where
  "errResponse name code desc =
     Marshal \<lparr>Error = Some \<lparr>Code = code, Description = desc\<rparr>,
              PubAck = Some \<lparr>Stream = name, Sequence = 0, Duplicate = False\<rparr>\<rparr>"

text \<open>\<^verbatim>\<open>canRespond := doAck && len(reply) > 0 && isLeader\<close> (lines 1694-1704).\<close>

definition canRespond :: "string \<Rightarrow> stream \<Rightarrow> bool" where
  "canRespond reply s = (\<not> NoAck (cfg s) \<and> 0 < length reply \<and> isLeader s)"

text \<open>
  The common end of a branch: \<^verbatim>\<open>if canRespond { sendq <- ... }\<close> followed by a
  \<^verbatim>\<open>return\<close>.
\<close>

definition respond :: "bool \<Rightarrow> string \<Rightarrow> payload \<Rightarrow> exit \<Rightarrow> error option \<Rightarrow> uint64 \<Rightarrow> string list \<Rightarrow> stream \<Rightarrow> outcome option" where
  "respond can reply b ex err seq obs s =
     (case (if can then send reply b s else Some s) of
        None \<Rightarrow> None
      | Some s1 \<Rightarrow> Some \<lparr>r_stream = s1, r_err = err, r_exit = ex, r_seq = seq, r_fanout = obs\<rparr>)"

text \<open>The suffix \<^verbatim>\<open>,"duplicate": true}\<close> of the acknowledgement of a duplicate.\<close>

definition duplicateSuffix :: bytes where
  "duplicateSuffix = '','' @ [CHR 0x22] @ ''duplicate'' @ [CHR 0x22] @ '': true}''"

text \<open>\<^verbatim>\<open>getExpectedStream\<close>, \<^verbatim>\<open>getExpectedLastMsgId\<close>, \<^verbatim>\<open>getExpectedLastSeq\<close> (lines 1633-1649).\<close>

definition getExpectedStream :: "ext \<Rightarrow> bytes \<Rightarrow> string" where
  "getExpectedStream x hdr = getHeader x JSExpectedStream hdr"

definition getExpectedLastMsgId :: "ext \<Rightarrow> bytes \<Rightarrow> string" where
  "getExpectedLastMsgId x hdr = getHeader x JSExpectedLastMsgId hdr"

definition getExpectedLastSeq :: "ext \<Rightarrow> bytes \<Rightarrow> uint64" where
  "getExpectedLastSeq x hdr =
     (let bseq = getHeader x JSExpectedLastSeq hdr
      in if length bseq = 0 then 0 else parseInt64 x bseq)"

text \<open>
  The fan-out at the end of \<^verbatim>\<open>processJetStreamMsg\<close> (lines 1917-1938): with a sequence
  and consumers, the consumers that lead are handed the message.
\<close>

definition fanout :: "uint64 \<Rightarrow> stream \<Rightarrow> string list" where
  "fanout seq s =
     (if 0 < seq \<and> 0 < length (consumers s)
      then map consumerName (filter consumerIsLeader (consumers s))
      else [])"

text \<open>
  The append (lines 1855-1941). \<^verbatim>\<open>seq\<close> is the local variable, zero until the store is
  called; \<open>ts\<close> is the time stamp after line 1835. With \<open>seq\<close> and \<open>ts\<close> both zero the
  store assigns the sequence (\<^verbatim>\<open>StoreMsg\<close>, whose time stamp the function drops);
  otherwise the message is written at \<open>olseq + 1\<close> (\<^verbatim>\<open>StoreRawMsg\<close>). An append that fails
  leaves the store as it was, and a failed \<^verbatim>\<open>StoreMsg\<close> answers sequence 0.
\<close>

definition storeStage :: "ext \<Rightarrow> env \<Rightarrow> bool \<Rightarrow> string \<Rightarrow> string \<Rightarrow> bytes \<Rightarrow> bytes \<Rightarrow> int64 \<Rightarrow> string \<Rightarrow> stream \<Rightarrow> outcome option" where
  "storeStage x e can subject reply hdr msg ts msgId s =
     (let seq = (0 :: uint64);
          olseq = lseq s;
          olmsgId = lmsgId s;
          s1 = s\<lparr>lmsgId := msgId, lseq := lseq s + 1\<rparr>;
          assign = (seq = 0 \<and> ts = 0);
          rseq = (if seq = 0 then olseq + 1 else seq)
      in (case storeErr e of
            Some err \<Rightarrow>
              respond can reply (errResponse (Name (cfg s)) 503 err) AtStoreFailed
                (Some (StoreError err)) (if assign then 0 else rseq) []
                (s1\<lparr>lseq := olseq, lmsgId := olmsgId\<rparr>)
          | None \<Rightarrow>
              (let seq1 = (if assign then fst (StoreMsg (now e) subject hdr msg (store s1)) else rseq);
                   st = (if assign then snd (snd (StoreMsg (now e) subject hdr msg (store s1)))
                         else StoreRawMsg subject hdr msg rseq ts (store s1));
                   s2 = s1\<lparr>store := st\<rparr>
               in if limitsExceeded e
                  then respond can reply
                         (errResponse (Name (cfg s)) 400 ''resource limits exceeded for account'')
                         AtLimitsExceeded None 0 (fanout 0 s2)
                         (s2\<lparr>store := snd (RemoveMsg seq1 (store s2))\<rparr>)
                  else (let s3 = (if msgId \<noteq> []
                                  then storeMsgId x \<lparr>dde_id = msgId, dde_seq = seq1, dde_ts = ts\<rparr> s2
                                  else s2)
                        in respond can reply (Raw (pubAck s @ FormatUint (unat seq1) @ ''}''))
                             AtStored None seq1 (fanout seq1 s3) s3))))"

text \<open>
  The skip of a message no consumer is interested in (lines 1838-1853). The dedupe entry
  is built from the local variable \<^verbatim>\<open>seq\<close>, which the function has not assigned at this
  point.
\<close>

definition skipStage :: "ext \<Rightarrow> bool \<Rightarrow> string \<Rightarrow> int64 \<Rightarrow> string \<Rightarrow> stream \<Rightarrow> outcome option" where
  "skipStage x can reply ts msgId s =
     (let seq = (0 :: uint64);
          s1 = s\<lparr>store := snd (SkipMsg (store s)), lseq := fst (SkipMsg (store s)), lmsgId := msgId\<rparr>
      in (case (if can then send reply (Raw (pubAck s @ FormatUint (unat (lseq s1)) @ ''}'')) s1
                else Some s1) of
            None \<Rightarrow> None
          | Some s2 \<Rightarrow>
              Some \<lparr>r_stream = (if msgId \<noteq> []
                                then storeMsgId x \<lparr>dde_id = msgId, dde_seq = seq, dde_ts = ts\<rparr> s2
                                else s2),
                    r_err = None, r_exit = AtSkipped, r_seq = seq, r_fanout = []\<rparr>))"

text \<open>
  \<^verbatim>\<open>noInterest\<close> (lines 1814-1830): interest retention with no consumer, or with
  filtered consumers none of which matches the subject.
\<close>

definition noInterest :: "ext \<Rightarrow> string \<Rightarrow> stream \<Rightarrow> bool" where
  "noInterest x subject s =
     (if Retention (cfg s) = InterestPolicy
      then (if length (consumers s) = 0 then True
            else if 0 < numFilter s
            then \<not> list_ex (\<lambda>c. FilterSubject c \<noteq> [] \<and> subjectIsSubsetMatch x subject (FilterSubject c))
                     (consumers s)
            else False)
      else False)"

text \<open>
  From the size check to the store (lines 1794-1853); \<open>hdr\<close> is the header after line
  1736 and \<open>msgId\<close> the message id read from it.
\<close>

definition sizeStage :: "ext \<Rightarrow> env \<Rightarrow> bool \<Rightarrow> string \<Rightarrow> string \<Rightarrow> bytes \<Rightarrow> bytes \<Rightarrow> int64 \<Rightarrow> string \<Rightarrow> stream \<Rightarrow> outcome option" where
  "sizeStage x e can subject reply hdr msg ts msgId s =
     (if 0 \<le> sint (MaxMsgSize (cfg s)) \<and> sint (MaxMsgSize (cfg s)) < int (length hdr + length msg)
      then respond can reply
             (errResponse (Name (cfg s)) 400 ''message size exceeds maximum allowed'')
             AtMaxPayload (Some ErrMaxPayload) 0 [] (s\<lparr>clfs := clfs s + 1\<rparr>)
      else (let ts1 = (if ts = 0 then now e else ts)
            in if noInterest x subject s
               then skipStage x can reply ts1 msgId s
               else storeStage x e can subject reply hdr msg ts1 msgId s))"

text \<open>
  The header checks (lines 1732-1792): the client information header is removed, then a
  header that is still there is checked for a duplicate message id, the expected
  stream, the expected last sequence and the expected last message id, in this order.
\<close>

definition headerStage :: "ext \<Rightarrow> env \<Rightarrow> bool \<Rightarrow> string \<Rightarrow> string \<Rightarrow> bytes \<Rightarrow> bytes \<Rightarrow> int64 \<Rightarrow> stream \<Rightarrow> outcome option" where
  "headerStage x e can subject reply hdr0 msg ts s =
     (let hdr = (if 0 < length hdr0 then removeHeaderIfPresent x hdr0 (ClientInfoHdr x) else hdr0)
      in if 0 < length hdr
         then (let msgId = getMsgId x hdr
               in (case checkMsgId msgId s of
                     Some dde \<Rightarrow>
                       respond can reply
                         (Raw (pubAck s @ FormatUint (unat (dde_seq dde)) @ duplicateSuffix))
                         AtDuplicate (Some errMsgIdDuplicate) 0 [] (s\<lparr>clfs := clfs s + 1\<rparr>)
                   | None \<Rightarrow>
                       if getExpectedStream x hdr \<noteq> [] \<and> getExpectedStream x hdr \<noteq> Name (cfg s)
                       then respond can reply
                              (errResponse (Name (cfg s)) 400 ''expected stream does not match'')
                              AtExpectedStream (Some errExpectedStream) 0 [] (s\<lparr>clfs := clfs s + 1\<rparr>)
                       else if 0 < getExpectedLastSeq x hdr \<and> getExpectedLastSeq x hdr \<noteq> lseq s
                       then respond can reply
                              (errResponse (Name (cfg s)) 400
                                 (''wrong last sequence: '' @ FormatUint (unat (lseq s))))
                              AtExpectedLastSeq
                              (Some (errLastSeq (getExpectedLastSeq x hdr) (lseq s))) 0 []
                              (s\<lparr>clfs := clfs s + 1\<rparr>)
                       else if getExpectedLastMsgId x hdr \<noteq> [] \<and> getExpectedLastMsgId x hdr \<noteq> lmsgId s
                       then respond can reply
                              (errResponse (Name (cfg s)) 400 (''wrong last msg ID: '' @ lmsgId s))
                              AtExpectedLastMsgId
                              (Some (errLastMsgId (getExpectedLastMsgId x hdr) (lmsgId s))) 0 []
                              (s\<lparr>clfs := clfs s + 1\<rparr>)
                       else sizeStage x e can subject reply hdr msg ts msgId s))
         else sizeStage x e can subject reply hdr msg ts [] s)"

text \<open>
  \<^verbatim>\<open>processJetStreamMsg(subject, reply, hdr, msg, lseq, ts)\<close> (lines 1680-1941); the
  proposed sequence \<^verbatim>\<open>lseq\<close> is \<open>plseq\<close> here. \<open>None\<close>: the call blocks for ever on the
  \<^verbatim>\<open>nil\<close> send queue.
\<close>

definition processJetStreamMsg :: "ext \<Rightarrow> env \<Rightarrow> string \<Rightarrow> string \<Rightarrow> bytes \<Rightarrow> bytes \<Rightarrow> uint64 \<Rightarrow> int64 \<Rightarrow> stream \<Rightarrow> outcome option" where
  "processJetStreamMsg x e subject reply hdr msg plseq ts s =
     (if \<not> client s
      then Some \<lparr>r_stream = s, r_err = None, r_exit = AtClosed, r_seq = 0, r_fanout = []\<rparr>
      else (let can = canRespond reply s
            in if 0 < plseq \<and> plseq \<noteq> lseq s + clfs s
               then (if Mirror (cfg s) \<noteq> None \<and> FirstSeq (store s) = 0
                     then headerStage x e can subject reply hdr msg ts
                            (s\<lparr>store := Compact (plseq + 1) (store s), lseq := plseq\<rparr>)
                     else respond (can \<and> sendq s \<noteq> None) reply
                            (errResponse (Name (cfg s)) 503 ''expected stream sequence does not match'')
                            AtSeqMismatch (Some errLastSeqMismatch) 0 [] s)
               else headerStage x e can subject reply hdr msg ts s))"

subsection \<open>Deliveries from a source\<close>

text \<open>
  \<^verbatim>\<open>sourceInfo{name, sub, sseq, dseq, lag, err, last}\<close> without \<^verbatim>\<open>err\<close>; a subscription
  is known by a number, \<open>None\<close> is \<^verbatim>\<open>nil\<close>.
\<close>

record sourceInfo =
  si_name :: string
  si_sub :: "nat option"
  si_sseq :: uint64
  si_dseq :: uint64
  si_lag :: uint64
  si_last :: int64

text \<open>
  The calls \<^verbatim>\<open>processInboundSourceMsg\<close> makes to the rest of the stream:
  \<^verbatim>\<open>setSourceConsumer(name, seq)\<close>, which tears the upstream consumer down and installs
  it again from \<open>seq\<close>; \<^verbatim>\<open>processClusteredInboundMsg(subject, reply, hdr, msg)\<close>, which
  proposes the message to the raft group and is not in \<^verbatim>\<open>stream.go\<close>; and
  \<^verbatim>\<open>processJetStreamMsg(subject, reply, hdr, msg, 0, 0)\<close>, which is also run on the stream.
\<close>

datatype call =
    SetSourceConsumer string uint64
  | ProcessClusteredInboundMsg string string bytes bytes
  | ProcessJetStreamMsg string string bytes bytes uint64 int64

record sourceOutcome =
  so_si :: "sourceInfo option"
  so_stream :: stream
  so_calls :: "call list"

text \<open>
  \<^verbatim>\<open>processInboundSourceMsg(si, sub, c, subject, reply, rmsg)\<close> (lines 1240-1286); \<open>hdr\<close> and
  \<open>msg\<close> are the parts \<^verbatim>\<open>c.msgParts(rmsg)\<close> of the raw message. \<open>None\<close>: the ingest blocks
  for ever.
\<close>

definition processInboundSourceMsg :: "ext \<Rightarrow> env \<Rightarrow> sourceInfo option \<Rightarrow> nat option \<Rightarrow> string \<Rightarrow> string \<Rightarrow> bytes \<Rightarrow> bytes \<Rightarrow> stream \<Rightarrow> sourceOutcome option" where
  "processInboundSourceMsg x e si sub subject reply hdr0 msg s =
     (case replyInfo x reply of
        (sseq, dseq, dc, ts, pending) \<Rightarrow>
          (case si of
             None \<Rightarrow> Some \<lparr>so_si = si, so_stream = s, so_calls = []\<rparr>
           | Some i \<Rightarrow>
               if sub \<noteq> si_sub i \<or> 1 < dc
               then Some \<lparr>so_si = si, so_stream = s, so_calls = []\<rparr>
               else if dseq = si_dseq i + 1
               then (let i1 = i\<lparr>si_dseq := si_dseq i + 1, si_sseq := si_sseq i + 1\<rparr>;
                         i2 = (if dseq = 1 then i1\<lparr>si_sseq := sseq\<rparr> else i1);
                         i3 = i2\<lparr>si_last := now e, si_lag := pending\<rparr>;
                         hdr = genHeader x hdr0 JSStreamSource reply;
                         ack = (\<lambda>s1. if sendq s1 \<noteq> None \<and> reply \<noteq> [] then send reply (Raw []) s1 else Some s1)
                     in if node s \<noteq> None
                        then (case ack s of
                                None \<Rightarrow> None
                              | Some s2 \<Rightarrow>
                                  Some \<lparr>so_si = Some i3, so_stream = s2,
                                        so_calls = [ProcessClusteredInboundMsg subject [] hdr msg]\<rparr>)
                        else (case processJetStreamMsg x e subject [] hdr msg 0 0 s of
                                None \<Rightarrow> None
                              | Some r \<Rightarrow>
                                  (case ack (r_stream r) of
                                     None \<Rightarrow> None
                                   | Some s2 \<Rightarrow>
                                       Some \<lparr>so_si = Some i3, so_stream = s2,
                                             so_calls = [ProcessJetStreamMsg subject [] hdr msg 0 0]\<rparr>)))
               else Some \<lparr>so_si = si, so_stream = s,
                          so_calls = [SetSourceConsumer (si_name i) (si_sseq i + 1)]\<rparr>))"

subsection \<open>The block size of a file store\<close>

text \<open>
  \<^verbatim>\<open>maxMsgSize\<close> (lines 459-490); \<open>mpay\<close> is the account's maximum payload
  \<^verbatim>\<open>mset.jsa.acc().mpay\<close>, \<open>None\<close> when there is no account to ask.
\<close>

definition maxMsgSize :: "ext \<Rightarrow> int32 option \<Rightarrow> stream \<Rightarrow> uint64" where
  "maxMsgSize x mpay s =
     (let m0 = MaxMsgSize (cfg s);
          m1 = (if m0 \<le>s 0
                then (let m = (case mpay of None \<Rightarrow> m0 | Some p \<Rightarrow> p)
                      in if m \<le>s 0 then MAX_PAYLOAD_SIZE x else m)
                else m0);
          maxSubject0 = foldl (\<lambda>m subj. if subjectIsLiteral x subj \<and> m < int (length subj)
                                          then int (length subj) else m)
                          (- 1) (Subjects (cfg s));
          maxSubject = (if maxSubject0 < 0 then 256 else maxSubject0)
      in fileStoreMsgSizeEstimate x maxSubject (sint m1))"

text \<open>
  \<^verbatim>\<open>autoTuneFileStorageBlockSize\<close> (lines 495-521) in its three steps: the estimate of the
  total size (lines 498-507, \<open>None\<close> when neither limit is set and the function returns),
  the rounding to the next multiple of 100 (lines 510-513) and the clamp (lines 514-519).
  The result is the value assigned to \<^verbatim>\<open>fsCfg.BlockSize\<close>, \<open>None\<close> when the function
  returns without assigning it.
\<close>

definition roundUp100 :: "uint64 \<Rightarrow> uint64" where
  "roundUp100 blkSize = (if blkSize mod 100 \<noteq> 0 then blkSize + (100 - blkSize mod 100) else blkSize)"

definition clampBlkSize :: "ext \<Rightarrow> uint64 \<Rightarrow> uint64" where
  "clampBlkSize x blkSize =
     (let b1 = (if blkSize < FileStoreMinBlkSize x then FileStoreMinBlkSize x else blkSize)
      in if FileStoreMaxBlkSize x < b1 then FileStoreMaxBlkSize x else b1)"

definition totalEstSize :: "ext \<Rightarrow> int32 option \<Rightarrow> stream \<Rightarrow> uint64 option" where
  "totalEstSize x mpay s =
     (if 0 <s MaxBytes (cfg s) then Some (MaxBytes (cfg s))
      else if 0 <s MaxMsgs (cfg s) then Some (maxMsgSize x mpay s * MaxMsgs (cfg s))
      else None)"

definition autoTuneFileStorageBlockSize :: "ext \<Rightarrow> int32 option \<Rightarrow> stream \<Rightarrow> uint64 option" where
  "autoTuneFileStorageBlockSize x mpay s =
     (case totalEstSize x mpay s of
        None \<Rightarrow> None
      | Some est \<Rightarrow> Some (clampBlkSize x (roundUp100 (est div 4 + 1))))"

section \<open>Properties\<close>

subsection \<open>Predicates of the specification\<close>


text \<open>A publish is accepted when the call ends with the message stored or skipped.\<close>

definition accepted :: "outcome \<Rightarrow> bool" where
  "accepted r \<longleftrightarrow> r_exit r = AtStored \<or> r_exit r = AtSkipped"

text \<open>
  What claim C2 says of a call that starts at \<open>s\<close> and ends with \<open>r\<close>: \<open>lseq\<close> has not
  decreased and is the store's last sequence, and after an accepted publish it has
  increased.
\<close>

definition lseq_step :: "stream \<Rightarrow> outcome \<Rightarrow> bool" where
  "lseq_step s r \<longleftrightarrow>
     lseq s \<le> lseq (r_stream r) \<and>
     lseq (r_stream r) = LastSeq (store (r_stream r)) \<and>
     (accepted r \<longrightarrow> lseq s < lseq (r_stream r))"


text \<open>
  An entry is past the window when \<^verbatim>\<open>now - dde.ts >= window\<close> (line 1587); \<open>expire ds m\<close> is
  the map \<open>m\<close> without the ids of the entries \<open>ds\<close>; and \<open>clampFire\<close> is the clamp of
  lines 1602-1605.
\<close>

definition pastWindow :: "int64 \<Rightarrow> int64 \<Rightarrow> ddentry \<Rightarrow> bool" where
  "pastWindow clock window d \<longleftrightarrow> window \<le>s clock - dde_ts d"






text \<open>
  The stream after the check of the proposed sequence (lines 1708-1730), for a call that
  gets past it: the store of a mirror that is still empty is compacted and \<open>lseq\<close> set
  to the proposed sequence.
\<close>

definition afterSeqCheck :: "uint64 \<Rightarrow> stream \<Rightarrow> stream" where
  "afterSeqCheck plseq s =
     (if 0 < plseq \<and> plseq \<noteq> lseq s + clfs s
      then s\<lparr>store := Compact (plseq + 1) (store s), lseq := plseq\<rparr>
      else s)"

text \<open>The header as the checks see it (line 1735) and the message id read from it.\<close>

definition strippedHdr :: "ext \<Rightarrow> bytes \<Rightarrow> bytes" where
  "strippedHdr x hdr = (if 0 < length hdr then removeHeaderIfPresent x hdr (ClientInfoHdr x) else hdr)"

definition msgIdOf :: "ext \<Rightarrow> bytes \<Rightarrow> string" where
  "msgIdOf x hdr = (if 0 < length (strippedHdr x hdr) then getMsgId x (strippedHdr x hdr) else [])"

text \<open>The reply message put on the send queue.\<close>

definition replyMsg :: "string \<Rightarrow> payload \<Rightarrow> jsPubMsg" where
  "replyMsg reply b =
     \<lparr>pm_subj = reply, pm_dsubj = [], pm_reply = [], pm_hdr = [], pm_msg = b, pm_seq = 0\<rparr>"

text \<open>
  The stream with the reply on its send queue, when one is sent; and the sequence the
  append writes the message at (the store's next one when the store assigns it, the one
  after \<open>lseq\<close> otherwise).
\<close>

definition replied :: "bool \<Rightarrow> string \<Rightarrow> payload \<Rightarrow> stream \<Rightarrow> stream" where
  "replied can reply b s =
     (if can then s\<lparr>sendq := map_option (\<lambda>q. q @ [replyMsg reply b]) (sendq s)\<rparr> else s)"

definition storedSeq :: "env \<Rightarrow> int64 \<Rightarrow> stream \<Rightarrow> uint64" where
  "storedSeq e ts s = (if ts = 0 \<and> now e = 0 then LastSeq (store s) + 1 else lseq s + 1)"

text \<open>
  The estimate as the specification words it: "the smaller of \<^verbatim>\<open>max_bytes\<close> or
  \<^verbatim>\<open>max_msg_size_estimate * max_msgs\<close>", and the block size computed from it.
\<close>

definition specTotalEstSize :: "ext \<Rightarrow> int32 option \<Rightarrow> stream \<Rightarrow> uint64" where
  "specTotalEstSize x mpay s = min (MaxBytes (cfg s)) (maxMsgSize x mpay s * MaxMsgs (cfg s))"

definition specBlockSize :: "ext \<Rightarrow> int32 option \<Rightarrow> stream \<Rightarrow> uint64" where
  "specBlockSize x mpay s = clampBlkSize x (roundUp100 (specTotalEstSize x mpay s div 4 + 1))"

subsection \<open>A concrete instance\<close>

text \<open>
  An instance of the parameters to run the model on: a header block is one line
  \<^verbatim>\<open>Key:Value\<close>; numbers are decimal, anything else parses to \<open>-1\<close>; a filter matches
  the subject equal to it; a reply subject is
  \<^verbatim>\<open>$JS.ACK.<stream>.<consumer>.<delivered>.<sseq>.<dseq>.<ts>.<pending>\<close>; a slice that
  has to grow doubles its capacity.
\<close>

fun parseDigits :: "int64 \<Rightarrow> string \<Rightarrow> int64" where
  "parseDigits n [] = n"
| "parseDigits n (c # cs) =
     (if c \<in> set ''0123456789''
      then parseDigits (n * 10 + of_nat (length (takeWhile (\<lambda>d. d \<noteq> c) ''0123456789''))) cs
      else - 1)"

definition parseDecimal :: "string \<Rightarrow> int64" where
  "parseDecimal d = (if d = [] then - 1 else parseDigits 0 d)"

fun splitDots :: "string \<Rightarrow> string \<Rightarrow> string list" where
  "splitDots acc [] = [rev acc]"
| "splitDots acc (c # cs) =
     (if c = CHR ''.'' then rev acc # splitDots [] cs else splitDots (c # acc) cs)"

definition sampleReplyInfo :: "string \<Rightarrow> uint64 \<times> uint64 \<times> uint64 \<times> int64 \<times> uint64" where
  "sampleReplyInfo reply =
     (case splitDots [] reply of
        [js, ack, strm, cons, dc, sseq, dseq, ts, pending] \<Rightarrow>
          if js = ''$JS'' \<and> ack = ''ACK''
          then (parseDecimal sseq, parseDecimal dseq, parseDecimal dc, parseDecimal ts,
                parseDecimal pending)
          else (0, 0, 0, 0, 0)
      | _ \<Rightarrow> (0, 0, 0, 0, 0))"

definition sampleExt :: ext where
  "sampleExt =
     \<lparr>getHeader = (\<lambda>key hdr. if take (length key + 1) hdr = key @ '':''
                              then drop (length key + 1) hdr else []),
      removeHeaderIfPresent = (\<lambda>hdr key. if take (length key + 1) hdr = key @ '':'' then [] else hdr),
      genHeader = (\<lambda>hdr key v. key @ '':'' @ v),
      parseInt64 = parseDecimal,
      subjectIsSubsetMatch = (\<lambda>subject filter. subject = filter),
      subjectIsLiteral = (\<lambda>subj. CHR ''*'' \<notin> set subj \<and> CHR ''>'' \<notin> set subj),
      fileStoreMsgSizeEstimate = (\<lambda>slen maxPayload. of_int (22 + slen + 4 + maxPayload)),
      FileStoreMinBlkSize = 32000,
      FileStoreMaxBlkSize = 16777216,
      MAX_PAYLOAD_SIZE = 1048576,
      ClientInfoHdr = ''Nats-Request-Info'',
      replyInfo = sampleReplyInfo,
      growslice = (\<lambda>oldcap needed. if 2 * oldcap < needed then needed else 2 * oldcap)\<rparr>"

definition sampleCfg :: StreamConfig where
  "sampleCfg =
     \<lparr>Name = ''S'', Subjects = [''foo''], Retention = LimitsPolicy, MaxMsgs = - 1, MaxBytes = - 1,
      MaxMsgSize = - 1, Storage = FileStorage, NoAck = False, Duplicates = 120000000000,
      Mirror = None\<rparr>"

text \<open>The template \<^verbatim>\<open>{"stream":"S","seq":\<close> that \<^verbatim>\<open>addStream\<close> builds for the stream \<^verbatim>\<open>S\<close>.\<close>

definition samplePubAck :: bytes where
  "samplePubAck =
     ''{'' @ [CHR 0x22] @ ''stream'' @ [CHR 0x22] @ '':'' @ [CHR 0x22] @ ''S'' @ [CHR 0x22] @ '',''
       @ [CHR 0x22] @ ''seq'' @ [CHR 0x22] @ '':''"

text \<open>A stream as \<^verbatim>\<open>addStream\<close> leaves it on an empty store, leading and not clustered.\<close>

definition sampleStream :: stream where
  "sampleStream =
     \<lparr>store = \<lparr>FirstSeq = 0, LastSeq = 0, msgs = []\<rparr>, lseq = 0, lmsgId = [], consumers = [],
      numFilter = 0, cfg = sampleCfg, ddmap = Map.empty, ddarr = [], ddcap = 0, ddindex = 0,
      ddtmr = None, client = True, sendq = Some [], pubAck = samplePubAck, node = None,
      clfs = 0\<rparr>"

definition sampleEnv :: env where
  "sampleEnv = \<lparr>now = 1000, storeErr = None, limitsExceeded = False\<rparr>"

text \<open>Environments in which the append fails and in which the account is over its limits.\<close>

definition failEnv :: env where
  "failEnv = sampleEnv\<lparr>storeErr := Some ''no space left on device''\<rparr>"

definition limitEnv :: env where
  "limitEnv = sampleEnv\<lparr>limitsExceeded := True\<rparr>"

text \<open>The stream with interest retention (and no consumer), and as a mirror.\<close>

definition interestStream :: stream where
  "interestStream = sampleStream\<lparr>cfg := sampleCfg\<lparr>Retention := InterestPolicy\<rparr>\<rparr>"

definition mirrorStream :: stream where
  "mirrorStream =
     sampleStream\<lparr>cfg := sampleCfg\<lparr>Mirror := Some \<lparr>SourceName = ''UP'', OptStartSeq = 0\<rparr>\<rparr>\<rparr>"

text \<open>The stream after five messages without a message id.\<close>

definition stream5 :: stream where
  "stream5 = sampleStream\<lparr>store := \<lparr>FirstSeq = 1, LastSeq = 5, msgs = []\<rparr>, lseq := 5\<rparr>"

text \<open>
  The stream after one message with the id \<^verbatim>\<open>A\<close>, stored at sequence 1 at the time 1000.
\<close>

definition entryA :: ddentry where
  "entryA = \<lparr>dde_id = ''A'', dde_seq = 1, dde_ts = 1000\<rparr>"

definition dedupStream :: stream where
  "dedupStream =
     sampleStream\<lparr>store := \<lparr>FirstSeq = 1, LastSeq = 1,
                              msgs = [(1, \<lparr>smSubject = ''foo'', smHeader = ''Nats-Msg-Id:A'',
                                           smData = ''data'', smTime = 1000\<rparr>)]\<rparr>,
                  lseq := 1, lmsgId := ''A'', ddmap := [''A'' \<mapsto> entryA], ddarr := [entryA],
                  ddcap := 1, ddtmr := Some 120000000000\<rparr>"

text \<open>
  The stream after a second message with the id \<^verbatim>\<open>B\<close>, stored at sequence 2 a hundred
  seconds after the first, with both entries in the index; and the same stream as it is
  recovered from its store, before \<^verbatim>\<open>rebuildDedupe\<close> has run.
\<close>

definition entryB100 :: ddentry where
  "entryB100 = \<lparr>dde_id = ''B'', dde_seq = 2, dde_ts = 100000001000\<rparr>"

definition store2 :: StreamStore where
  "store2 =
     \<lparr>FirstSeq = 1, LastSeq = 2,
      msgs = [(1, \<lparr>smSubject = ''foo'', smHeader = ''Nats-Msg-Id:A'', smData = ''data'',
                   smTime = 1000\<rparr>),
              (2, \<lparr>smSubject = ''foo'', smHeader = ''Nats-Msg-Id:B'', smData = ''data'',
                   smTime = 100000001000\<rparr>)]\<rparr>"

definition dedupStream2 :: stream where
  "dedupStream2 =
     sampleStream\<lparr>store := store2, lseq := 2, lmsgId := ''B'',
                  ddmap := [''A'' \<mapsto> entryA, ''B'' \<mapsto> entryB100], ddarr := [entryA, entryB100],
                  ddcap := 2, ddtmr := Some 120000000000\<rparr>"

definition recoveredStream :: stream where
  "recoveredStream = sampleStream\<lparr>store := store2\<rparr>"

text \<open>
  The index with the two entries the other way round: \<^verbatim>\<open>B\<close> was inserted first, then \<^verbatim>\<open>A\<close>
  with its earlier time stamp.
\<close>

definition unorderedStream :: stream where
  "unorderedStream = dedupStream2\<lparr>ddarr := [entryB100, entryA]\<rparr>"

text \<open>An entry whose time stamp lies before that of \<^verbatim>\<open>A\<close>.\<close>

definition entryEarly :: ddentry where
  "entryEarly = \<lparr>dde_id = ''B'', dde_seq = 2, dde_ts = 500\<rparr>"

section \<open>Proofs\<close>

subsection \<open>Unfolding the model on concrete input\<close>

lemmas stage_defs =
  processJetStreamMsg_def headerStage_def sizeStage_def skipStage_def storeStage_def respond_def
  send_def canRespond_def isLeader_def noInterest_def checkMsgId_def getMsgId_def
  getExpectedStream_def getExpectedLastSeq_def getExpectedLastMsgId_def storeMsgId_def fanout_def
  errResponse_def append_cap_def replyMsg_def Let_def

lemmas sample_defs =
  sampleExt_def sampleStream_def sampleCfg_def sampleEnv_def failEnv_def limitEnv_def
  interestStream_def mirrorStream_def stream5_def dedupStream_def entryA_def
  entryB100_def store2_def dedupStream2_def recoveredStream_def entryEarly_def unorderedStream_def
  JSMsgId_def JSExpectedStream_def JSExpectedLastSeq_def JSExpectedLastMsgId_def
  JSStreamSource_def parseDecimal_def SkipMsg_def StoreMsg_def StoreRawMsg_def RemoveMsg_def
  Compact_def

subsection \<open>The deduplication window\<close>



















subsection \<open>Claim C6: a pass of the purge timer\<close>




lemma purgeLoop_all_past:
  "dropWhile (pastWindow clock w) rest = [] \<Longrightarrow>
   snd (purgeLoop x clock w i rest (s, t)) = t"
proof (induction rest arbitrary: i s)
  case Nil
  then show ?case by simp
next
  case (Cons d rest)
  then show ?case
    by (simp add: pastWindow_def split: if_splits)
qed






subsection \<open>The ingest path, stage by stage\<close>

text \<open>
  A branch that replies either blocks on the \<^verbatim>\<open>nil\<close> queue or returns with the reply
  queued; the stages return whenever the queue is there or no reply is due, and each
  ends at one of its own \<^verbatim>\<open>return\<close> statements.
\<close>

lemma respond_eq:
  "respond can reply b ex err seq obs s =
     (if can \<and> sendq s = None then None
      else Some \<lparr>r_stream = replied can reply b s, r_err = err, r_exit = ex, r_seq = seq,
                 r_fanout = obs\<rparr>)"
  by (simp add: respond_def send_def replied_def replyMsg_def split: option.split)

lemma storeStage_exit:
  "storeStage x e can subject reply hdr msg ts msgId s = Some r \<Longrightarrow>
   r_exit r = AtStoreFailed \<or> r_exit r = AtLimitsExceeded \<or> r_exit r = AtStored"
  by (auto simp: storeStage_def respond_eq Let_def split: option.splits if_splits)

lemma skipStage_exit:
  "skipStage x can reply ts msgId s = Some r \<Longrightarrow> r_exit r = AtSkipped"
  by (auto simp: skipStage_def Let_def split: option.splits if_splits)

lemma sizeStage_exit:
  "sizeStage x e can subject reply hdr msg ts msgId s = Some r \<Longrightarrow>
   r_exit r \<in> {AtMaxPayload, AtSkipped, AtStoreFailed, AtLimitsExceeded, AtStored}"
  using storeStage_exit skipStage_exit
  by (fastforce simp: sizeStage_def respond_eq Let_def split: if_splits)

lemma storeStage_failed:
  assumes "storeStage x e can subject reply hdr msg ts msgId s = Some r" and "r_exit r = AtStoreFailed"
  shows "\<exists>err. storeErr e = Some err \<and> r_err r = Some (StoreError err) \<and>
           r_stream r = replied can reply (errResponse (Name (cfg s)) 503 err) s"
  using assms
  by (auto simp: storeStage_def respond_eq Let_def replied_def split: option.splits if_splits)

lemma sizeStage_failed:
  assumes "sizeStage x e can subject reply hdr msg ts msgId s = Some r" and "r_exit r = AtStoreFailed"
  shows "\<exists>err. storeErr e = Some err \<and> r_err r = Some (StoreError err) \<and>
           r_stream r = replied can reply (errResponse (Name (cfg s)) 503 err) s"
  using assms storeStage_failed [of x e can subject reply hdr msg _ msgId s r] skipStage_exit [of x can reply _ msgId s r]
  by (auto simp: sizeStage_def respond_eq Let_def split: if_splits)

lemma headerStage_failed:
  assumes "headerStage x e can subject reply hdr msg ts s = Some r" and "r_exit r = AtStoreFailed"
  shows "\<exists>err. storeErr e = Some err \<and> r_err r = Some (StoreError err) \<and>
           r_stream r = replied can reply (errResponse (Name (cfg s)) 503 err) s"
  using assms sizeStage_failed [of x e can subject reply _ msg ts _ s r]
  by (auto simp: headerStage_def respond_eq Let_def split: if_splits option.splits)

lemma storeStage_total:
  "sendq s \<noteq> None \<or> \<not> can \<Longrightarrow> \<exists>r. storeStage x e can subject reply hdr msg ts msgId s = Some r"
  by (auto simp: storeStage_def respond_eq Let_def storeMsgId_def split: option.splits)

lemma skipStage_total:
  "sendq s \<noteq> None \<or> \<not> can \<Longrightarrow> \<exists>r. skipStage x can reply ts msgId s = Some r"
  by (auto simp: skipStage_def send_def Let_def split: option.splits)

lemma sizeStage_total:
  "sendq s \<noteq> None \<or> \<not> can \<Longrightarrow> \<exists>r. sizeStage x e can subject reply hdr msg ts msgId s = Some r"
  using storeStage_total [of s can] skipStage_total [of s can]
  by (auto simp: sizeStage_def respond_eq Let_def)

lemma headerStage_total:
  "sendq s \<noteq> None \<or> \<not> can \<Longrightarrow> \<exists>r. headerStage x e can subject reply hdr msg ts s = Some r"
  using sizeStage_total [of s can]
  by (auto simp: headerStage_def respond_eq Let_def split: option.splits)

lemma processJetStreamMsg_total:
  "sendq s \<noteq> None \<or> \<not> canRespond reply s \<Longrightarrow>
   \<exists>r. processJetStreamMsg x e subject reply hdr msg plseq ts s = Some r"
  using headerStage_total [of s "canRespond reply s"]
        headerStage_total [of "s\<lparr>store := Compact (plseq + 1) (store s), lseq := plseq\<rparr>" "canRespond reply s"]
  by (auto simp: processJetStreamMsg_def respond_eq Let_def)

lemma storeStage_err:
  "storeStage x e can subject reply hdr msg ts msgId s = Some r \<Longrightarrow> r_err r \<noteq> Some errLastSeqMismatch"
  by (auto simp: storeStage_def respond_eq Let_def split: option.splits if_splits)

lemma skipStage_err:
  "skipStage x can reply ts msgId s = Some r \<Longrightarrow> r_err r = None"
  by (auto simp: skipStage_def Let_def split: option.splits if_splits)

lemma sizeStage_err:
  "sizeStage x e can subject reply hdr msg ts msgId s = Some r \<Longrightarrow> r_err r \<noteq> Some errLastSeqMismatch"
  using storeStage_err [of x e can subject reply hdr msg _ msgId s r] skipStage_err [of x can reply _ msgId s r]
  by (auto simp: sizeStage_def respond_eq Let_def split: if_splits)

lemma headerStage_err:
  "headerStage x e can subject reply hdr msg ts s = Some r \<Longrightarrow> r_err r \<noteq> Some errLastSeqMismatch"
  using sizeStage_err [of x e can subject reply _ msg ts _ s r]
  by (auto simp: headerStage_def respond_eq Let_def split: if_splits option.splits)

lemma word_less_inc: "(x :: 'a::len word) \<noteq> - 1 \<Longrightarrow> x < x + 1"
  by (metis inc_less_eq_triv_imp linorder_less_linear word_le_less_eq)

lemma respond_Some:
  "sendq s = Some q \<Longrightarrow>
   respond can reply b ex err seq obs s =
     Some \<lparr>r_stream = (if can then s\<lparr>sendq := Some (q @ [replyMsg reply b])\<rparr> else s),
           r_err = err, r_exit = ex, r_seq = seq, r_fanout = obs\<rparr>"
  by (simp add: respond_def send_def replyMsg_def)

lemma storeStage_lseq:
  assumes "sendq s = Some q" "lseq s = LastSeq (store s)" "lseq s \<noteq> - 1"
  shows "\<exists>r. storeStage x e can subject reply hdr msg ts msgId s = Some r \<and> lseq_step s r"
  using assms word_less_inc [of "LastSeq (store s)"]
  by (cases "storeErr e")
     (simp_all add: storeStage_def respond_Some Let_def lseq_step_def accepted_def storeMsgId_def
        StoreMsg_def StoreRawMsg_def RemoveMsg_def less_imp_le)

lemma skipStage_lseq:
  assumes "sendq s = Some q" "lseq s = LastSeq (store s)" "lseq s \<noteq> - 1"
  shows "\<exists>r. skipStage x can reply ts msgId s = Some r \<and> lseq_step s r"
  using assms word_less_inc [of "LastSeq (store s)"]
  by (simp add: skipStage_def send_def Let_def lseq_step_def accepted_def storeMsgId_def
        SkipMsg_def less_imp_le)

lemma sizeStage_lseq:
  assumes "sendq s = Some q" "lseq s = LastSeq (store s)" "lseq s \<noteq> - 1"
  shows "\<exists>r. sizeStage x e can subject reply hdr msg ts msgId s = Some r \<and> lseq_step s r"
  using assms storeStage_lseq [OF assms] skipStage_lseq [OF assms]
  by (simp add: sizeStage_def respond_Some Let_def lseq_step_def accepted_def)

lemma headerStage_lseq:
  assumes "sendq s = Some q" "lseq s = LastSeq (store s)" "lseq s \<noteq> - 1"
  shows "\<exists>r. headerStage x e can subject reply hdr msg ts s = Some r \<and> lseq_step s r"
  using assms sizeStage_lseq [OF assms]
  by (simp add: headerStage_def respond_Some Let_def lseq_step_def accepted_def split: option.split)

subsection \<open>Claim C2: the last sequence\<close>

text \<open>
  Claim C2. For every accepted publish processed by \<^verbatim>\<open>processJetStreamMsg\<close>, \<open>lseq\<close> is
  strictly increasing, no call decreases it, and after a successful append (indeed after
  every call) \<open>lseq\<close> equals the store's last sequence. The call starts where the
  invariant holds (\<open>lseq\<close> is the store's last sequence, as \<^verbatim>\<open>rebuildDedupe\<close> sets it),
  below the largest \<^verbatim>\<open>uint64\<close>, where \<open>++\<close> would wrap; a mirror whose store says it is
  empty (\<open>FirstSeq = 0\<close>) has assigned no sequence yet; and the send queue is there, so
  the call returns.
\<close>

theorem lseq_increases_and_matches_store:
  assumes "sendq s \<noteq> None"
      and "lseq s = LastSeq (store s)"
      and "lseq s \<noteq> - 1" and "plseq \<noteq> - 1"
      and "Mirror (cfg s) \<noteq> None \<and> FirstSeq (store s) = 0 \<longrightarrow> lseq s = 0"
  shows "\<exists>r. processJetStreamMsg x e subject reply hdr msg plseq ts s = Some r \<and>
             lseq s \<le> lseq (r_stream r) \<and>
             lseq (r_stream r) = LastSeq (store (r_stream r)) \<and>
             (accepted r \<longrightarrow> lseq s < lseq (r_stream r))"
proof -
  from assms(1) obtain q where q: "sendq s = Some q" by auto
  show ?thesis
  proof (cases "client s \<and> 0 < plseq \<and> plseq \<noteq> lseq s + clfs s \<and> Mirror (cfg s) \<noteq> None \<and> FirstSeq (store s) = 0")
    case True
    let ?s = "s\<lparr>store := Compact (plseq + 1) (store s), lseq := plseq\<rparr>"
    from True assms(5) have z: "lseq s = 0" by simp
    from assms(4) have nz: "plseq + 1 \<noteq> 0"
      using max_word_wrap by blast
    then have "0 < plseq + 1" using word_neq_0_conv by blast
    with z assms(2) have l: "LastSeq (store s) < plseq + 1" by simp
    have a: "sendq ?s = Some q" using q by simp
    have b: "lseq ?s = LastSeq (store ?s)" using l by (simp add: Compact_def)
    have c: "lseq ?s \<noteq> - 1" using assms(4) by simp
    from headerStage_lseq [OF a b c, of x e "canRespond reply s" subject reply hdr msg ts]
    obtain r where r: "headerStage x e (canRespond reply s) subject reply hdr msg ts ?s = Some r"
      and st: "lseq_step ?s r" by blast
    from True r have "processJetStreamMsg x e subject reply hdr msg plseq ts s = Some r"
      by (simp add: processJetStreamMsg_def Let_def)
    moreover have pl: "lseq ?s = plseq" by simp
    from st have st3: "lseq ?s \<le> lseq (r_stream r) \<and>
        lseq (r_stream r) = LastSeq (store (r_stream r)) \<and>
        (accepted r \<longrightarrow> lseq ?s < lseq (r_stream r))"
      unfolding lseq_step_def .
    from st3 have "lseq (r_stream r) = LastSeq (store (r_stream r))" by blast
    moreover from z have "lseq s \<le> lseq (r_stream r)" by simp
    moreover have "accepted r \<longrightarrow> lseq s < lseq (r_stream r)"
    proof
      assume "accepted r"
      with st3 have "lseq ?s < lseq (r_stream r)" by blast
      then have "plseq < lseq (r_stream r)" unfolding pl .
      then have "0 < lseq (r_stream r)" by (auto simp: word_less_nat_alt)
      with z show "lseq s < lseq (r_stream r)" by simp
    qed
    ultimately show ?thesis by blast
  next
    case False
    show ?thesis
    proof (cases "client s")
      case False
      then have "processJetStreamMsg x e subject reply hdr msg plseq ts s =
          Some \<lparr>r_stream = s, r_err = None, r_exit = AtClosed, r_seq = 0, r_fanout = []\<rparr>"
        by (simp add: processJetStreamMsg_def)
      with assms(2) show ?thesis by (simp add: accepted_def)
    next
      case True
      note cl = this
      show ?thesis
      proof (cases "0 < plseq \<and> plseq \<noteq> lseq s + clfs s")
        case True
        with cl False q have "processJetStreamMsg x e subject reply hdr msg plseq ts s =
            Some \<lparr>r_stream = replied (canRespond reply s) reply
                       (errResponse (Name (cfg s)) 503 ''expected stream sequence does not match'') s,
                  r_err = Some errLastSeqMismatch, r_exit = AtSeqMismatch, r_seq = 0, r_fanout = []\<rparr>"
          by (auto simp: processJetStreamMsg_def Let_def respond_eq replied_def)
        with assms(2) show ?thesis by (simp add: accepted_def replied_def)
      next
        case False
        from headerStage_lseq [OF q assms(2) assms(3), of x e "canRespond reply s" subject reply hdr msg ts]
        obtain r where r: "headerStage x e (canRespond reply s) subject reply hdr msg ts s = Some r"
          and st: "lseq_step s r" by blast
        from cl False r have "processJetStreamMsg x e subject reply hdr msg plseq ts s = Some r"
          by (auto simp: processJetStreamMsg_def Let_def)
        with st show ?thesis unfolding lseq_step_def by blast
      qed
    qed
  qed
qed

text \<open>The theorem at the first publish to the stream: it is stored at sequence 1.\<close>

theorem lseq_increases_and_matches_store_witness:
  "sendq sampleStream \<noteq> None \<and> lseq sampleStream = LastSeq (store sampleStream) \<and>
   lseq sampleStream \<noteq> - 1 \<and>
   (\<exists>r. processJetStreamMsg sampleExt sampleEnv ''foo'' ''inbox'' ''Nats-Msg-Id:A'' ''data'' 0 0 sampleStream = Some r \<and>
        accepted r \<and> lseq (r_stream r) = 1 \<and> lseq sampleStream < lseq (r_stream r) \<and>
        lseq (r_stream r) = LastSeq (store (r_stream r)))"
proof -
  have h1: "sendq sampleStream \<noteq> None" and h2: "lseq sampleStream = LastSeq (store sampleStream)"
    and h3: "lseq sampleStream \<noteq> - 1" and h4: "(0 :: uint64) \<noteq> - 1"
    and h5: "Mirror (cfg sampleStream) \<noteq> None \<and> FirstSeq (store sampleStream) = 0 \<longrightarrow> lseq sampleStream = 0"
    by (simp_all add: sample_defs)
  from lseq_increases_and_matches_store [OF h1 h2 h3 h4 h5, of sampleExt sampleEnv "''foo''" "''inbox''" "''Nats-Msg-Id:A''" "''data''" 0]
  obtain r where r: "processJetStreamMsg sampleExt sampleEnv ''foo'' ''inbox'' ''Nats-Msg-Id:A'' ''data'' 0 0 sampleStream = Some r"
    and p: "lseq (r_stream r) = LastSeq (store (r_stream r))" "accepted r \<longrightarrow> lseq sampleStream < lseq (r_stream r)"
    by blast
  from r have "accepted r \<and> lseq (r_stream r) = 1"
    by (auto simp: stage_defs sample_defs accepted_def)
  with r p h1 h2 h3 show ?thesis by blast
qed

subsection \<open>Claim C4: the proposed sequence\<close>

text \<open>
  Claim C4. When \<^verbatim>\<open>processJetStreamMsg\<close> is called with a proposed sequence \<open>plseq > 0\<close>
  that is not \<open>lseq + clfs\<close>: if the stream is a mirror whose store is empty (its state
  has \<open>FirstSeq = 0\<close>), the store is compacted to \<open>plseq + 1\<close>, \<open>lseq\<close> is set to \<open>plseq\<close>
  and the call goes on with the header checks (and does not return the mismatch error);
  otherwise the call replies 503 "expected stream sequence does not match" (when it can
  respond and the queue is there), returns \<^verbatim>\<open>errLastSeqMismatch\<close> and leaves \<open>lseq\<close> and
  the store unchanged.
\<close>

theorem proposed_seq_mismatch:
  assumes "client s" and "0 < plseq" and "plseq \<noteq> lseq s + clfs s"
  shows "(Mirror (cfg s) \<noteq> None \<and> FirstSeq (store s) = 0 \<longrightarrow>
            processJetStreamMsg x e subject reply hdr msg plseq ts s =
              headerStage x e (canRespond reply s) subject reply hdr msg ts
                (s\<lparr>store := Compact (plseq + 1) (store s), lseq := plseq\<rparr>) \<and>
            (\<forall>r. processJetStreamMsg x e subject reply hdr msg plseq ts s = Some r \<longrightarrow>
                 r_err r \<noteq> Some errLastSeqMismatch)) \<and>
         (\<not> (Mirror (cfg s) \<noteq> None \<and> FirstSeq (store s) = 0) \<longrightarrow>
            (\<exists>r. processJetStreamMsg x e subject reply hdr msg plseq ts s = Some r \<and>
                 r_err r = Some errLastSeqMismatch \<and> r_exit r = AtSeqMismatch \<and>
                 lseq (r_stream r) = lseq s \<and> store (r_stream r) = store s \<and>
                 r_stream r = replied (canRespond reply s) reply
                                (errResponse (Name (cfg s)) 503 ''expected stream sequence does not match'') s))"
proof (cases "Mirror (cfg s) \<noteq> None \<and> FirstSeq (store s) = 0")
  case True
  with assms have eq: "processJetStreamMsg x e subject reply hdr msg plseq ts s =
              headerStage x e (canRespond reply s) subject reply hdr msg ts
                (s\<lparr>store := Compact (plseq + 1) (store s), lseq := plseq\<rparr>)"
    by (simp add: processJetStreamMsg_def Let_def)
  with headerStage_err True show ?thesis by auto
next
  case False
  with assms show ?thesis
    by (cases "sendq s") (auto simp: processJetStreamMsg_def Let_def respond_eq replied_def)
qed

text \<open>
  The theorem at the proposed sequence 7 on a fresh stream: the mirror stores the message
  at sequence 8, the stream that is no mirror answers 503.
\<close>

theorem proposed_seq_mismatch_witness:
  "client mirrorStream \<and> (0 :: uint64) < 7 \<and> 7 \<noteq> lseq mirrorStream + clfs mirrorStream \<and>
   Mirror (cfg mirrorStream) \<noteq> None \<and> FirstSeq (store mirrorStream) = 0 \<and>
   (\<exists>r. processJetStreamMsg sampleExt sampleEnv ''foo'' ''inbox'' [] ''data'' 7 2000 mirrorStream = Some r \<and>
        r_err r = None \<and> lseq (r_stream r) = 8 \<and> FirstSeq (store (r_stream r)) = 8 \<and>
        LastSeq (store (r_stream r)) = 8) \<and>
   (\<exists>r. processJetStreamMsg sampleExt sampleEnv ''foo'' ''inbox'' [] ''data'' 7 2000 sampleStream = Some r \<and>
        r_err r = Some errLastSeqMismatch \<and> lseq (r_stream r) = 0 \<and>
        sendq (r_stream r) =
          Some [replyMsg ''inbox'' (errResponse ''S'' 503 ''expected stream sequence does not match'')])"
proof -
  have m: "client mirrorStream" "(0 :: uint64) < 7" "7 \<noteq> lseq mirrorStream + clfs mirrorStream"
    and mf: "Mirror (cfg mirrorStream) \<noteq> None \<and> FirstSeq (store mirrorStream) = 0"
    by (simp_all add: sample_defs)
  have n: "client sampleStream" "(0 :: uint64) < 7" "7 \<noteq> lseq sampleStream + clfs sampleStream"
    and nf: "\<not> (Mirror (cfg sampleStream) \<noteq> None \<and> FirstSeq (store sampleStream) = 0)"
    by (simp_all add: sample_defs)
  from proposed_seq_mismatch [OF m, of sampleExt sampleEnv "''foo''" "''inbox''" "[]" "''data''" 2000] mf
  have "processJetStreamMsg sampleExt sampleEnv ''foo'' ''inbox'' [] ''data'' 7 2000 mirrorStream =
          headerStage sampleExt sampleEnv (canRespond ''inbox'' mirrorStream) ''foo'' ''inbox'' [] ''data'' 2000
            (mirrorStream\<lparr>store := Compact (7 + 1) (store mirrorStream), lseq := 7\<rparr>)"
    by blast
  then have a: "\<exists>r. processJetStreamMsg sampleExt sampleEnv ''foo'' ''inbox'' [] ''data'' 7 2000 mirrorStream = Some r \<and>
        r_err r = None \<and> lseq (r_stream r) = 8 \<and> FirstSeq (store (r_stream r)) = 8 \<and>
        LastSeq (store (r_stream r)) = 8"
    by (simp add: stage_defs sample_defs)
  from proposed_seq_mismatch [OF n, of sampleExt sampleEnv "''foo''" "''inbox''" "[]" "''data''" 2000] nf
  have b: "\<exists>r. processJetStreamMsg sampleExt sampleEnv ''foo'' ''inbox'' [] ''data'' 7 2000 sampleStream = Some r \<and>
        r_err r = Some errLastSeqMismatch \<and> lseq (r_stream r) = 0 \<and>
        sendq (r_stream r) =
          Some [replyMsg ''inbox'' (errResponse ''S'' 503 ''expected stream sequence does not match'')]"
    by (auto simp: sample_defs replied_def canRespond_def isLeader_def)
  from m mf a b show ?thesis by blast
qed

subsection \<open>Claim C5: a failed append\<close>

lemma map_of_filter_fst_None:
  "map_of (filter (\<lambda>m. fst m \<noteq> q) xs) q = None"
  by (induction xs) auto

text \<open>
  Claim C5. If the store append fails in \<^verbatim>\<open>processJetStreamMsg\<close>, the call is atomic on
  the in-memory state: the stream is the one before the attempted append (after the
  check of the proposed sequence), so \<open>lseq\<close> and \<open>lmsgId\<close> have their former values, and
  the only change is the 503 reply on the send queue, whose description is the text of
  the store's error. The call returns whenever the send queue is there.
\<close>

theorem store_failure_rolls_back:
  "(sendq s \<noteq> None \<longrightarrow> (\<exists>r. processJetStreamMsg x e subject reply hdr msg plseq ts s = Some r)) \<and>
   (\<forall>r. processJetStreamMsg x e subject reply hdr msg plseq ts s = Some r \<and> r_exit r = AtStoreFailed \<longrightarrow>
      (\<exists>err. storeErr e = Some err \<and> r_err r = Some (StoreError err) \<and>
         r_stream r = replied (canRespond reply s) reply (errResponse (Name (cfg s)) 503 err)
                        (afterSeqCheck plseq s)) \<and>
      lseq (r_stream r) = lseq (afterSeqCheck plseq s) \<and>
      lmsgId (r_stream r) = lmsgId s)"
proof (intro conjI allI impI)
  assume "sendq s \<noteq> None"
  then show "\<exists>r. processJetStreamMsg x e subject reply hdr msg plseq ts s = Some r"
    using processJetStreamMsg_total by blast
next
  fix r
  assume a: "processJetStreamMsg x e subject reply hdr msg plseq ts s = Some r \<and> r_exit r = AtStoreFailed"
  then have "headerStage x e (canRespond reply s) subject reply hdr msg ts (afterSeqCheck plseq s) = Some r"
    by (auto simp: processJetStreamMsg_def respond_eq Let_def afterSeqCheck_def split: if_splits)
  from headerStage_failed [OF this] a
  obtain err where e: "storeErr e = Some err" "r_err r = Some (StoreError err)"
    "r_stream r = replied (canRespond reply s) reply (errResponse (Name (cfg (afterSeqCheck plseq s))) 503 err) (afterSeqCheck plseq s)"
    by blast
  have n: "Name (cfg (afterSeqCheck plseq s)) = Name (cfg s)"
    by (simp add: afterSeqCheck_def)
  from e n show "\<exists>err. storeErr e = Some err \<and> r_err r = Some (StoreError err) \<and>
         r_stream r = replied (canRespond reply s) reply (errResponse (Name (cfg s)) 503 err)
                        (afterSeqCheck plseq s)"
    by simp
  from e show "lseq (r_stream r) = lseq (afterSeqCheck plseq s)"
    by (simp add: replied_def)
  from e show "lmsgId (r_stream r) = lmsgId s"
    by (simp add: replied_def afterSeqCheck_def)
qed

text \<open>The theorem at a publish to the fresh stream whose append fails.\<close>

theorem store_failure_rolls_back_witness:
  "\<exists>r. processJetStreamMsg sampleExt failEnv ''foo'' ''inbox'' [] ''data'' 0 0 sampleStream = Some r \<and>
       r_exit r = AtStoreFailed \<and> r_err r = Some (StoreError ''no space left on device'') \<and>
       lseq (r_stream r) = 0 \<and> lmsgId (r_stream r) = [] \<and>
       sendq (r_stream r) = Some [replyMsg ''inbox'' (errResponse ''S'' 503 ''no space left on device'')]"
proof -
  have "sendq sampleStream \<noteq> None" by (simp add: sampleStream_def)
  with store_failure_rolls_back [of sampleStream sampleExt failEnv "''foo''" "''inbox''" "[]" "''data''" 0 0]
  obtain r where r: "processJetStreamMsg sampleExt failEnv ''foo'' ''inbox'' [] ''data'' 0 0 sampleStream = Some r"
    by blast
  then have ex: "r_exit r = AtStoreFailed"
    by (auto simp: stage_defs sample_defs)
  with r store_failure_rolls_back [of sampleStream sampleExt failEnv "''foo''" "''inbox''" "[]" "''data''" 0 0]
  have "(\<exists>err. storeErr failEnv = Some err \<and> r_err r = Some (StoreError err) \<and>
         r_stream r = replied (canRespond ''inbox'' sampleStream) ''inbox'' (errResponse (Name (cfg sampleStream)) 503 err)
                        (afterSeqCheck 0 sampleStream)) \<and>
      lseq (r_stream r) = lseq (afterSeqCheck 0 sampleStream) \<and>
      lmsgId (r_stream r) = lmsgId sampleStream"
    by blast
  with r ex show ?thesis
    by (auto simp: sample_defs replied_def afterSeqCheck_def canRespond_def isLeader_def)
qed

subsection \<open>Claim C10: the account over its limits\<close>

lemma storeStage_limits:
  assumes "storeStage x e can subject reply hdr msg ts msgId s = Some r" and "r_exit r = AtLimitsExceeded"
  shows "limitsExceeded e \<and> storeErr e = None \<and> r_err r = None \<and> r_seq r = 0 \<and> r_fanout r = [] \<and>
         lseq (r_stream r) = lseq s + 1 \<and> lmsgId (r_stream r) = msgId \<and>
         ddmap (r_stream r) = ddmap s \<and> ddarr (r_stream r) = ddarr s \<and>
         LoadMsg (if ts = 0 then LastSeq (store s) + 1 else lseq s + 1) (store (r_stream r)) = None \<and>
         sendq (r_stream r) =
           sendq (replied can reply
                    (errResponse (Name (cfg s)) 400 ''resource limits exceeded for account'') s)"
  using assms
  by (auto simp: storeStage_def respond_eq Let_def replied_def fanout_def LoadMsg_def RemoveMsg_def
        StoreMsg_def StoreRawMsg_def map_of_filter_fst_None
      split: option.splits if_splits)

lemma sizeStage_limits:
  assumes "sizeStage x e can subject reply hdr msg ts msgId s = Some r" and "r_exit r = AtLimitsExceeded"
  shows "limitsExceeded e \<and> storeErr e = None \<and> r_err r = None \<and> r_seq r = 0 \<and> r_fanout r = [] \<and>
         lseq (r_stream r) = lseq s + 1 \<and> lmsgId (r_stream r) = msgId \<and>
         ddmap (r_stream r) = ddmap s \<and> ddarr (r_stream r) = ddarr s \<and>
         LoadMsg (storedSeq e ts s) (store (r_stream r)) = None \<and>
         sendq (r_stream r) =
           sendq (replied can reply
                    (errResponse (Name (cfg s)) 400 ''resource limits exceeded for account'') s)"
proof (cases "noInterest x subject s \<or> (0 \<le> sint (MaxMsgSize (cfg s)) \<and> sint (MaxMsgSize (cfg s)) < int (length hdr + length msg))")
  case True
  with assms skipStage_exit [of x can reply _ msgId s r] show ?thesis
    by (auto simp: sizeStage_def respond_eq Let_def split: if_splits)
next
  case False
  with assms(1) have "storeStage x e can subject reply hdr msg (if ts = 0 then now e else ts) msgId s = Some r"
    by (auto simp: sizeStage_def Let_def split: if_splits)
  from storeStage_limits [OF this assms(2)] show ?thesis
    by (auto simp: storedSeq_def split: if_splits)
qed

lemma headerStage_limits:
  assumes "headerStage x e can subject reply hdr msg ts s = Some r" and "r_exit r = AtLimitsExceeded"
  shows "limitsExceeded e \<and> storeErr e = None \<and> r_err r = None \<and> r_seq r = 0 \<and> r_fanout r = [] \<and>
         lseq (r_stream r) = lseq s + 1 \<and> lmsgId (r_stream r) = msgIdOf x hdr \<and>
         ddmap (r_stream r) = ddmap s \<and> ddarr (r_stream r) = ddarr s \<and>
         LoadMsg (storedSeq e ts s) (store (r_stream r)) = None \<and>
         sendq (r_stream r) =
           sendq (replied can reply
                    (errResponse (Name (cfg s)) 400 ''resource limits exceeded for account'') s)"
proof -
  have "sizeStage x e can subject reply (strippedHdr x hdr) msg ts (msgIdOf x hdr) s = Some r"
    using assms
    by (auto simp: headerStage_def respond_eq Let_def strippedHdr_def msgIdOf_def
        split: if_splits option.splits)
  from sizeStage_limits [OF this assms(2)] show ?thesis .
qed

text \<open>
  Claim C10. When the account's storage limits are exceeded after a successful append,
  \<^verbatim>\<open>processJetStreamMsg\<close> removes the message it has just stored, reports error 400
  "resource limits exceeded for account", ends with the sequence 0 and returns \<^verbatim>\<open>nil\<close>;
  unlike the path of a failed append it does not roll back: \<open>lseq\<close> stays incremented
  and \<open>lmsgId\<close> is the id of the rejected message; no dedupe entry is recorded and no
  consumer is handed the message.
\<close>

theorem limits_exceeded_no_rollback:
  "(sendq s \<noteq> None \<longrightarrow> (\<exists>r. processJetStreamMsg x e subject reply hdr msg plseq ts s = Some r)) \<and>
   (\<forall>r. processJetStreamMsg x e subject reply hdr msg plseq ts s = Some r \<and> r_exit r = AtLimitsExceeded \<longrightarrow>
      limitsExceeded e \<and> storeErr e = None \<and> r_err r = None \<and> r_seq r = 0 \<and> r_fanout r = [] \<and>
      lseq (r_stream r) = lseq (afterSeqCheck plseq s) + 1 \<and>
      lmsgId (r_stream r) = msgIdOf x hdr \<and>
      ddmap (r_stream r) = ddmap s \<and> ddarr (r_stream r) = ddarr s \<and>
      LoadMsg (storedSeq e ts (afterSeqCheck plseq s)) (store (r_stream r)) = None \<and>
      sendq (r_stream r) =
        sendq (replied (canRespond reply s) reply
                 (errResponse (Name (cfg s)) 400 ''resource limits exceeded for account'') s))"
proof (intro conjI allI impI)
  assume "sendq s \<noteq> None"
  then show "\<exists>r. processJetStreamMsg x e subject reply hdr msg plseq ts s = Some r"
    using processJetStreamMsg_total by blast
next
  fix r
  assume a: "processJetStreamMsg x e subject reply hdr msg plseq ts s = Some r \<and> r_exit r = AtLimitsExceeded"
  then have "headerStage x e (canRespond reply s) subject reply hdr msg ts (afterSeqCheck plseq s) = Some r"
    by (auto simp: processJetStreamMsg_def respond_eq Let_def afterSeqCheck_def split: if_splits)
  from headerStage_limits [OF this] a
  have h: "limitsExceeded e \<and> storeErr e = None \<and> r_err r = None \<and> r_seq r = 0 \<and> r_fanout r = [] \<and>
         lseq (r_stream r) = lseq (afterSeqCheck plseq s) + 1 \<and> lmsgId (r_stream r) = msgIdOf x hdr \<and>
         ddmap (r_stream r) = ddmap (afterSeqCheck plseq s) \<and> ddarr (r_stream r) = ddarr (afterSeqCheck plseq s) \<and>
         LoadMsg (storedSeq e ts (afterSeqCheck plseq s)) (store (r_stream r)) = None \<and>
         sendq (r_stream r) =
           sendq (replied (canRespond reply s) reply
                    (errResponse (Name (cfg (afterSeqCheck plseq s))) 400 ''resource limits exceeded for account'') (afterSeqCheck plseq s))"
    by blast
  from h show "limitsExceeded e" "storeErr e = None" "r_err r = None" "r_seq r = 0" "r_fanout r = []"
    "lseq (r_stream r) = lseq (afterSeqCheck plseq s) + 1" "lmsgId (r_stream r) = msgIdOf x hdr"
    "LoadMsg (storedSeq e ts (afterSeqCheck plseq s)) (store (r_stream r)) = None"
    by simp_all
  from h show "ddmap (r_stream r) = ddmap s" by (simp add: afterSeqCheck_def)
  from h show "ddarr (r_stream r) = ddarr s" by (simp add: afterSeqCheck_def)
  from h show "sendq (r_stream r) =
        sendq (replied (canRespond reply s) reply
                 (errResponse (Name (cfg s)) 400 ''resource limits exceeded for account'') s)"
    by (simp add: afterSeqCheck_def replied_def)
qed

text \<open>The theorem at a publish with the id \<^verbatim>\<open>A\<close> to the fresh stream of an account over its limits.\<close>

theorem limits_exceeded_no_rollback_witness:
  "\<exists>r. processJetStreamMsg sampleExt limitEnv ''foo'' ''inbox'' ''Nats-Msg-Id:A'' ''data'' 0 0 sampleStream = Some r \<and>
       r_exit r = AtLimitsExceeded \<and> r_err r = None \<and> r_seq r = 0 \<and> r_fanout r = [] \<and>
       lseq (r_stream r) = 1 \<and> lmsgId (r_stream r) = ''A'' \<and>
       ddmap (r_stream r) = Map.empty \<and> ddarr (r_stream r) = [] \<and>
       LoadMsg 1 (store (r_stream r)) = None \<and>
       sendq (r_stream r) =
         Some [replyMsg ''inbox'' (errResponse ''S'' 400 ''resource limits exceeded for account'')]"
proof -
  have "sendq sampleStream \<noteq> None" by (simp add: sampleStream_def)
  with limits_exceeded_no_rollback [of sampleStream sampleExt limitEnv "''foo''" "''inbox''" "''Nats-Msg-Id:A''" "''data''" 0 0]
  obtain r where r: "processJetStreamMsg sampleExt limitEnv ''foo'' ''inbox'' ''Nats-Msg-Id:A'' ''data'' 0 0 sampleStream = Some r"
    by blast
  then have ex: "r_exit r = AtLimitsExceeded"
    by (auto simp: stage_defs sample_defs)
  with r limits_exceeded_no_rollback [of sampleStream sampleExt limitEnv "''foo''" "''inbox''" "''Nats-Msg-Id:A''" "''data''" 0 0]
  have "r_err r = None \<and> r_seq r = 0 \<and> r_fanout r = [] \<and>
      lseq (r_stream r) = lseq (afterSeqCheck 0 sampleStream) + 1 \<and>
      lmsgId (r_stream r) = msgIdOf sampleExt ''Nats-Msg-Id:A'' \<and>
      ddmap (r_stream r) = ddmap sampleStream \<and> ddarr (r_stream r) = ddarr sampleStream \<and>
      LoadMsg (storedSeq limitEnv 0 (afterSeqCheck 0 sampleStream)) (store (r_stream r)) = None \<and>
      sendq (r_stream r) =
        sendq (replied (canRespond ''inbox'' sampleStream) ''inbox''
                 (errResponse (Name (cfg sampleStream)) 400 ''resource limits exceeded for account'') sampleStream)"
    by blast
  with r ex show ?thesis
    by (auto simp: sample_defs replied_def afterSeqCheck_def canRespond_def isLeader_def
        msgIdOf_def strippedHdr_def getMsgId_def storedSeq_def)
qed


end
